theory Spec2Isabelle
  imports
    Main
    "HOL-Library.Char_ord"
    "HOL-Library.List_Lexorder"
    "HOL-Library.Option_ord"
    "HOL-Library.Product_Lexorder"
begin

section \<open>Data model\<close>

text \<open>
  The entities of \<^verbatim>\<open>wger.exercises\<close> as the object-relational layer hands them to the
  code: an object carries its columns, a foreign key is the referenced object (or
  \<open>None\<close> for a nullable key that is not set), and a reverse relation
  (\<^verbatim>\<open>setting_set\<close>, \<^verbatim>\<open>exerciseimage_set\<close>, the aliases of an exercise) is the list of rows the
  related manager returns, in query order.
\<close>

datatype py_error =
  AttributeError | DoesNotExist | MultipleObjectsReturned | ValueError | OverflowError

record language =
  lang_id :: int
  short_name :: string

record exercise_category =
  cat_id :: int
  cat_name :: string

text \<open>The join \<^verbatim>\<open>setting.set.exerciseday.training\<close> of the workout manager.\<close>

record workout =
  workout_pk :: int

record day =
  training :: workout

record workout_set =
  exerciseday :: day

record setting =
  set_obj :: workout_set

definition training_id :: "day \<Rightarrow> int" where
  "training_id d = workout_pk (training d)"

datatype submission_status = STATUS_PENDING | STATUS_ACCEPTED | STATUS_DECLINED

record image_file =
  url :: string

record exercise_image =
  img_id :: int
  image :: image_file
  is_main :: bool
  status :: submission_status

record exercise_base =
  base_id :: int
  category :: exercise_category
  muscles :: "int list"
  muscles_secondary :: "int list"
  equipment :: "int list"
  license_id :: int
  exerciseimage_set :: "exercise_image list"
  setting_set :: "setting list"

text \<open>
  \<^verbatim>\<open>Exercise\<close> (models/exercise.py, lines 48-101). \<open>exercise_base\<close> is declared
  \<^verbatim>\<open>null=True, default=None\<close>, hence an option.
\<close>

record exercise =
  ex_id :: int
  description :: string
  name :: string
  language_id :: int
  exercise_base :: "exercise_base option"
  alias_set :: "string list"

section \<open>The cache and the activity stream\<close>

datatype cache_key = template_fragment string int | workout_canonical int

type_synonym cache = "cache_key \<rightharpoonup> string"

record action_entry =
  actor :: string
  verb :: string
  action_object :: int

record world =
  languages :: "language list"
  exercises :: "exercise list"
  exercise_images :: "exercise_image list"
  cache_store :: cache
  action_stream :: "action_entry list"

text \<open>
  Modelled from the spec: \<^verbatim>\<open>wger.utils.cache.delete_template_fragment_cache\<close> is not among
  the sources; the spec calls it the cache-fragment invalidation capability. It drops the
  entry of the named template fragment for the given language id from the cache.
\<close>

definition delete_template_fragment_cache :: "string \<Rightarrow> int \<Rightarrow> world \<Rightarrow> world" where
  "delete_template_fragment_cache fragment_name vary_on w =
     w\<lparr>cache_store := (cache_store w)(template_fragment fragment_name vary_on := None)\<rparr>"

text \<open>
  Modelled from the spec: \<^verbatim>\<open>wger.utils.cache.reset_workout_canonical_form\<close> is not among the
  sources; the spec calls it the canonical-workout-cache-reset capability. It drops the
  cached canonical form of the workout with the given id.
\<close>

definition reset_workout_canonical_form :: "int \<Rightarrow> world \<Rightarrow> world" where
  "reset_workout_canonical_form workout_id w =
     w\<lparr>cache_store := (cache_store w)(workout_canonical workout_id := None)\<rparr>"

section \<open>\<^verbatim>\<open>Exercise.save\<close> and \<^verbatim>\<open>Exercise.delete\<close>\<close>

text \<open>
  \<^verbatim>\<open>models.Model.save\<close> and \<^verbatim>\<open>models.Model.delete\<close> belong to the framework: the row with
  the primary key of the instance is written, respectively removed.
\<close>

definition super_save :: "exercise \<Rightarrow> world \<Rightarrow> world" where
  "super_save self w =
     w\<lparr>exercises := self # filter (\<lambda>e. ex_id e \<noteq> ex_id self) (exercises w)\<rparr>"

definition super_delete :: "exercise \<Rightarrow> world \<Rightarrow> world" where
  "super_delete self w =
     w\<lparr>exercises := filter (\<lambda>e. ex_id e \<noteq> ex_id self) (exercises w)\<rparr>"

text \<open>The loop over \<^verbatim>\<open>Language.objects.all()\<close> (lines 125-128 and 140-143).\<close>

primrec delete_fragments :: "language list \<Rightarrow> world \<Rightarrow> world" where
  "delete_fragments [] w = w"
| "delete_fragments (l # ls) w =
     delete_fragments ls
       (delete_template_fragment_cache ''equipment-overview'' (lang_id l)
         (delete_template_fragment_cache ''exercise-overview'' (lang_id l)
           (delete_template_fragment_cache ''muscle-overview'' (lang_id l) w)))"

text \<open>
  The loop over \<^verbatim>\<open>self.exercise_base.setting_set.all()\<close>: \<^verbatim>\<open>save\<close> reads
  \<^verbatim>\<open>setting.set.exerciseday.training_id\<close> (line 132), \<^verbatim>\<open>delete\<close> reads
  \<^verbatim>\<open>setting.set.exerciseday.training.pk\<close> (line 147).
\<close>

primrec reset_workouts_save :: "setting list \<Rightarrow> world \<Rightarrow> world" where
  "reset_workouts_save [] w = w"
| "reset_workouts_save (s # ss) w =
     reset_workouts_save ss
       (reset_workout_canonical_form (training_id (exerciseday (set_obj s))) w)"

primrec reset_workouts_delete :: "setting list \<Rightarrow> world \<Rightarrow> world" where
  "reset_workouts_delete [] w = w"
| "reset_workouts_delete (s # ss) w =
     reset_workouts_delete ss
       (reset_workout_canonical_form (workout_pk (training (exerciseday (set_obj s)))) w)"

text \<open>
  Both methods return the outcome together with the world they leave behind: an
  exception does not undo the writes made before it. \<^verbatim>\<open>self.exercise_base.setting_set\<close> on
  a \<^verbatim>\<open>None\<close> base is Python's \<^verbatim>\<open>AttributeError\<close>.
\<close>

definition save :: "exercise \<Rightarrow> world \<Rightarrow> (py_error + unit) \<times> world" where
  "save self w =
     (let w1 = super_save self w;
          w2 = delete_fragments (languages w1) w1
      in case exercise_base self of
           None \<Rightarrow> (Inl AttributeError, w2)
         | Some b \<Rightarrow> (Inr (), reset_workouts_save (setting_set b) w2))"

definition delete :: "exercise \<Rightarrow> world \<Rightarrow> (py_error + unit) \<times> world" where
  "delete self w =
     (let w1 = delete_fragments (languages w) w
      in case exercise_base self of
           None \<Rightarrow> (Inl AttributeError, w1)
         | Some b \<Rightarrow> (Inr (), super_delete self (reset_workouts_delete (setting_set b) w1)))"

section \<open>Python values\<close>

text \<open>
  A query parameter is a string or absent (\<open>None\<close>); \<^verbatim>\<open>if q:\<close> holds for a non-empty
  string only.

  \<^verbatim>\<open>int(s)\<close> on a string belongs to the interpreter; the views take it as a parameter
  (\<open>python_int\<close> below), with \<open>None\<close> for \<^verbatim>\<open>ValueError\<close>. \<open>py_int\<close> is what CPython 3.11
  computes on a string of code points below 256, and is what the examples run:
  surrounding whitespace is dropped (the blanks U+0009 to U+000D and U+0020, and U+0085
  and U+00A0), a sign may lead, the digits may be grouped by single underscores, and
  more than 4300 digits are refused.
\<close>

definition is_space :: "char \<Rightarrow> bool" where
  "is_space c =
     (c \<in> set [CHR 0x09, CHR 0x0A, CHR 0x0B, CHR 0x0C, CHR 0x0D, CHR 0x20, CHR 0x85, CHR 0xA0])"

definition strip :: "string \<Rightarrow> string" where
  "strip s = rev (dropWhile is_space (rev (dropWhile is_space s)))"

definition is_digit :: "char \<Rightarrow> bool" where
  "is_digit c = (c \<in> set ''0123456789'')"

definition digit_value :: "char \<Rightarrow> int" where
  "digit_value c = of_char c - 48"

fun digits_from :: "int \<Rightarrow> string \<Rightarrow> int option" where
  "digits_from n [] = Some n"
| "digits_from n (c # cs) =
     (if is_digit c then digits_from (10 * n + digit_value c) cs
      else if c = CHR ''_'' then
        (case cs of
           [] \<Rightarrow> None
         | d # ds \<Rightarrow> if is_digit d then digits_from (10 * n + digit_value d) ds else None)
      else None)"

definition parse_digits :: "string \<Rightarrow> int option" where
  "parse_digits s =
     (if 4300 < length (filter is_digit s) then None
      else (case s of
              [] \<Rightarrow> None
            | c # cs \<Rightarrow> if is_digit c then digits_from (digit_value c) cs else None))"

definition py_int :: "string \<Rightarrow> int option" where
  "py_int s =
     (case strip s of
        [] \<Rightarrow> None
      | c # cs \<Rightarrow>
          if c = CHR ''-'' then map_option uminus (parse_digits cs)
          else if c = CHR ''+'' then parse_digits cs
          else parse_digits (c # cs))"

text \<open>\<^verbatim>\<open>s.split(sep)\<close> for a one-character separator: never empty, keeps empty pieces.\<close>

fun split_on :: "char \<Rightarrow> string \<Rightarrow> string list" where
  "split_on sep [] = [[]]"
| "split_on sep (c # cs) =
     (if c = sep then [] # split_on sep cs
      else (case split_on sep cs of w # ws \<Rightarrow> (c # w) # ws | [] \<Rightarrow> [[c]]))"

text \<open>
  \<^verbatim>\<open>[int(m) for m in s.split(',')]\<close>: the comprehension raises as soon as one piece does
  not parse.
\<close>

definition int_list :: "(string \<Rightarrow> int option) \<Rightarrow> string \<Rightarrow> int list option" where
  "int_list to_int s = those (map to_int (split_on CHR '','' s))"

datatype json =
    JNull
  | JInt int
  | JStr string
  | JList "json list"
  | JDict "(string \<times> json) list"

text \<open>\<^verbatim>\<open>d[k] = v\<close> on a dictionary kept in insertion order.\<close>

fun dict_set :: "(string \<times> json) list \<Rightarrow> string \<Rightarrow> json \<Rightarrow> (string \<times> json) list" where
  "dict_set [] k v = [(k, v)]"
| "dict_set ((k', v') # d) k v =
     (if k' = k then (k, v) # d else (k', v') # dict_set d k v)"

record response =
  status_code :: int
  data :: json

text \<open>\<^verbatim>\<open>Response(data)\<close> of the REST framework: the status defaults to 200.\<close>

definition Response :: "json \<Rightarrow> response" where
  "Response d = \<lparr>status_code = 200, data = d\<rparr>"

section \<open>Collaborators\<close>

text \<open>
  What the views take from outside the sources, as parameters: the language-visibility
  resolver \<^verbatim>\<open>load_item_languages\<close> (called with \<^verbatim>\<open>LanguageConfig.SHOW_ITEM_EXERCISES\<close> and
  the language code of the request), the thumbnail aliases (\<^verbatim>\<open>aliases.all()\<close> are the keys,
  \<^verbatim>\<open>aliases.get\<close> the lookup), the URL of \<^verbatim>\<open>get_thumbnailer(file).get_thumbnail(options)\<close>,
  \<^verbatim>\<open>gettext\<close>, and Python's \<^verbatim>\<open>int\<close> on a string.
\<close>

record env =
  python_int :: "string \<Rightarrow> int option"
  load_item_languages :: "string option \<Rightarrow> language list"
  thumbnail_aliases :: "(string \<times> json) list"
  get_thumbnail_url :: "image_file \<Rightarrow> json option \<Rightarrow> string"
  gettext :: "string \<Rightarrow> string"

definition aliases_all :: "env \<Rightarrow> string list" where
  "aliases_all ev = map fst (thumbnail_aliases ev)"

definition aliases_get :: "env \<Rightarrow> string \<Rightarrow> json option" where
  "aliases_get ev a = map_of (thumbnail_aliases ev) a"

text \<open>\<^verbatim>\<open>dict\<close> value of an optional entry: \<^verbatim>\<open>None\<close> is JSON null.\<close>

definition json_of_option :: "json option \<Rightarrow> json" where
  "json_of_option v = (case v of None \<Rightarrow> JNull | Some j \<Rightarrow> j)"

section \<open>Properties of \<^verbatim>\<open>Exercise\<close>\<close>

text \<open>
  \<^verbatim>\<open>Exercise.category\<close> and \<^verbatim>\<open>Exercise.images\<close> (lines 160-178) read through the base;
  on a \<^verbatim>\<open>None\<close> base the attribute access raises.
\<close>

definition Exercise_category :: "exercise \<Rightarrow> py_error + exercise_category" where
  "Exercise_category self =
     (case exercise_base self of None \<Rightarrow> Inl AttributeError | Some b \<Rightarrow> Inr (category b))"

definition images :: "exercise \<Rightarrow> py_error + exercise_image list" where
  "images self =
     (case exercise_base self of
        None \<Rightarrow> Inl AttributeError
      | Some b \<Rightarrow> Inr (exerciseimage_set b))"

text \<open>
  Modelled from the spec: the queryset method \<^verbatim>\<open>accepted()\<close> of the image manager is not
  among the sources; the spec speaks of the accepted main image of a base. It keeps the
  images whose submission status is accepted.
\<close>

definition accepted :: "exercise_image list \<Rightarrow> exercise_image list" where
  "accepted imgs = filter (\<lambda>i. status i = STATUS_ACCEPTED) imgs"

text \<open>\<^verbatim>\<open>QuerySet.first()\<close>: the first row of the query, \<^verbatim>\<open>None\<close> when there is none.\<close>

definition first :: "'a list \<Rightarrow> 'a option" where
  "first xs = (case xs of [] \<Rightarrow> None | x # _ \<Rightarrow> Some x)"

text \<open>\<^verbatim>\<open>Exercise.main_image\<close> (lines 199-204).\<close>

definition main_image :: "exercise \<Rightarrow> py_error + exercise_image option" where
  "main_image self =
     (case images self of
        Inl err \<Rightarrow> Inl err
      | Inr imgs \<Rightarrow> Inr (first (filter is_main (accepted imgs))))"

section \<open>\<^verbatim>\<open>ExerciseViewSet.get_queryset\<close>\<close>

text \<open>
  A queryset is the list of its result rows. A filter over a many-to-many relation joins
  the relation in: an exercise is returned once for each related row that matches. An
  exercise without base has no row in the join.
\<close>

record query_params =
  qp_category :: "string option"
  qp_muscles :: "string option"
  qp_muscles_secondary :: "string option"
  qp_equipment :: "string option"
  qp_license :: "string option"

text \<open>
  \<^verbatim>\<open>Exercise.objects.all()\<close>: the model declares \<^verbatim>\<open>ordering = ["name"]\<close> (models/exercise.py,
  lines 106-110), so the rows come ordered by name; strings compare character by
  character.
\<close>

definition Exercise_objects_all :: "world \<Rightarrow> exercise list" where
  "Exercise_objects_all w = sort_key name (exercises w)"

definition filter_base_eq :: "(exercise_base \<Rightarrow> int) \<Rightarrow> int \<Rightarrow> exercise list \<Rightarrow> exercise list" where
  "filter_base_eq col v qs =
     filter (\<lambda>e. case exercise_base e of None \<Rightarrow> False | Some b \<Rightarrow> col b = v) qs"

definition filter_base_in ::
  "(exercise_base \<Rightarrow> int list) \<Rightarrow> int list \<Rightarrow> exercise list \<Rightarrow> exercise list" where
  "filter_base_in rel vs qs =
     concat (map (\<lambda>e. case exercise_base e of
                         None \<Rightarrow> []
                       | Some b \<Rightarrow> map (\<lambda>_. e) (filter (\<lambda>m. m \<in> set vs) (rel b))) qs)"

text \<open>
  The five blocks of lines 173-202, each on the pair of the queryset and the lines
  logged so far; \<open>to_int\<close> is Python's \<^verbatim>\<open>int\<close>.
\<close>

type_synonym qs_state = "exercise list \<times> string list"

definition category_block ::
  "(string \<Rightarrow> int option) \<Rightarrow> string option \<Rightarrow> qs_state \<Rightarrow> qs_state" where
  "category_block to_int p st =
     (case p of
        None \<Rightarrow> st
      | Some c \<Rightarrow>
          if c = [] then st
          else (case to_int c of
                  Some n \<Rightarrow> (filter_base_eq (\<lambda>b. cat_id (category b)) n (fst st), snd st)
                | None \<Rightarrow> (fst st, snd st @ [''Got '' @ c @ '' as category ID''])))"

definition muscles_block ::
  "(string \<Rightarrow> int option) \<Rightarrow> string option \<Rightarrow> qs_state \<Rightarrow> qs_state" where
  "muscles_block to_int p st =
     (case p of
        None \<Rightarrow> st
      | Some m \<Rightarrow>
          if m = [] then st
          else (case int_list to_int m of
                  Some ids \<Rightarrow> (filter_base_in muscles ids (fst st), snd st)
                | None \<Rightarrow> (fst st, snd st @ [''Got '' @ m @ '' as muscle IDs''])))"

definition muscles_secondary_block ::
  "(string \<Rightarrow> int option) \<Rightarrow> string option \<Rightarrow> qs_state \<Rightarrow> qs_state" where
  "muscles_secondary_block to_int p st =
     (case p of
        None \<Rightarrow> st
      | Some m \<Rightarrow>
          if m = [] then st
          else (case int_list to_int m of
                  Some muscle_ids \<Rightarrow> (filter_base_in muscles_secondary muscle_ids (fst st), snd st)
                | None \<Rightarrow>
                    (fst st, snd st @ [''Got '' @ [CHR 0x27] @ m @ [CHR 0x27] @ '' as secondary muscle IDs''])))"

definition equipment_block ::
  "(string \<Rightarrow> int option) \<Rightarrow> string option \<Rightarrow> qs_state \<Rightarrow> qs_state" where
  "equipment_block to_int p st =
     (case p of
        None \<Rightarrow> st
      | Some e \<Rightarrow>
          if e = [] then st
          else (case int_list to_int e of
                  Some ids \<Rightarrow> (filter_base_in equipment ids (fst st), snd st)
                | None \<Rightarrow> (fst st, snd st @ [''Got '' @ e @ '' as equipment IDs''])))"

definition license_block ::
  "(string \<Rightarrow> int option) \<Rightarrow> string option \<Rightarrow> qs_state \<Rightarrow> qs_state" where
  "license_block to_int p st =
     (case p of
        None \<Rightarrow> st
      | Some l \<Rightarrow>
          if l = [] then st
          else (case to_int l of
                  Some n \<Rightarrow> (filter_base_eq license_id n (fst st), snd st)
                | None \<Rightarrow> (fst st, snd st @ [''Got '' @ l @ '' as license ID''])))"

definition get_queryset :: "env \<Rightarrow> world \<Rightarrow> query_params \<Rightarrow> qs_state" where
  "get_queryset ev w qp =
     license_block (python_int ev) (qp_license qp)
       (equipment_block (python_int ev) (qp_equipment qp)
         (muscles_secondary_block (python_int ev) (qp_muscles_secondary qp)
           (muscles_block (python_int ev) (qp_muscles qp)
             (category_block (python_int ev) (qp_category qp) (Exercise_objects_all w, [])))))"

text \<open>
  What a filter parameter asks of an exercise, in the words of the spec: nothing when
  the parameter is absent, empty or not a valid integer (list); otherwise that the base
  of the exercise has the given id in the column, respectively one of the given ids in
  the relation.
\<close>

definition passes_id_filter ::
  "(exercise_base \<Rightarrow> int) \<Rightarrow> (string \<Rightarrow> int option) \<Rightarrow> string option \<Rightarrow> exercise \<Rightarrow> bool" where
  "passes_id_filter col to_int p e =
     (case p of
        None \<Rightarrow> True
      | Some s \<Rightarrow>
          if s = [] then True
          else (case to_int s of
                  None \<Rightarrow> True
                | Some n \<Rightarrow> (case exercise_base e of None \<Rightarrow> False | Some b \<Rightarrow> col b = n)))"

definition passes_ids_filter ::
  "(exercise_base \<Rightarrow> int list) \<Rightarrow> (string \<Rightarrow> int option) \<Rightarrow> string option \<Rightarrow> exercise \<Rightarrow> bool" where
  "passes_ids_filter rel to_int p e =
     (case p of
        None \<Rightarrow> True
      | Some s \<Rightarrow>
          if s = [] then True
          else (case int_list to_int s of
                  None \<Rightarrow> True
                | Some ids \<Rightarrow>
                    (case exercise_base e of
                       None \<Rightarrow> False
                     | Some b \<Rightarrow> list_ex (\<lambda>m. m \<in> set ids) (rel b))))"

section \<open>The \<^verbatim>\<open>search\<close> view\<close>

text \<open>
  \<^verbatim>\<open>icontains\<close>: the term occurs in the value when the case of the letters A to Z is
  ignored.
\<close>

definition lower_char :: "char \<Rightarrow> char" where
  "lower_char c =
     (if CHR ''A'' \<le> c \<and> c \<le> CHR ''Z'' then char_of (of_char c + (32::nat)) else c)"

fun starts_with :: "string \<Rightarrow> string \<Rightarrow> bool" where
  "starts_with [] s = True"
| "starts_with (a # q) [] = False"
| "starts_with (a # q) (b # s) = (a = b \<and> starts_with q s)"

fun contains_str :: "string \<Rightarrow> string \<Rightarrow> bool" where
  "contains_str q [] = (q = [])"
| "contains_str q (c # s) = (starts_with q (c # s) \<or> contains_str q s)"

definition icontains :: "string \<Rightarrow> string \<Rightarrow> bool" where
  "icontains q s = contains_str (map lower_char q) (map lower_char s)"

text \<open>
  The lookup \<^verbatim>\<open>Q(name__icontains=q) | Q(alias__alias__icontains=q)\<close> joins the aliases to
  the exercises with a left outer join: one row for each alias of an exercise, and one
  row without alias for an exercise that has none.
\<close>

definition alias_join :: "exercise list \<Rightarrow> (exercise \<times> string option) list" where
  "alias_join exs =
     concat (map (\<lambda>e. if alias_set e = [] then [(e, None)]
                       else map (\<lambda>a. (e, Some a)) (alias_set e)) exs)"

definition name_lookup :: "string \<Rightarrow> exercise \<times> string option \<Rightarrow> bool" where
  "name_lookup q r =
     (icontains q (name (fst r)) \<or> (case snd r of None \<Rightarrow> False | Some a \<Rightarrow> icontains q a))"

text \<open>
  \<^verbatim>\<open>order_by('exercise_base__category__name', 'name')\<close>: strings compare character by
  character; the category name of an exercise without base is null, taken to come first.
\<close>

definition category_name :: "exercise \<Rightarrow> string option" where
  "category_name e = map_option (\<lambda>b. cat_name (category b)) (exercise_base e)"

definition order_key :: "exercise \<Rightarrow> string option \<times> string" where
  "order_key e = (category_name e, name e)"

text \<open>The queryset \<^verbatim>\<open>exercises\<close> of lines 223-227; \<^verbatim>\<open>distinct()\<close> selects the exercise columns.\<close>

definition search_exercises :: "world \<Rightarrow> string \<Rightarrow> language list \<Rightarrow> exercise list" where
  "search_exercises w q langs =
     remdups (map fst
       (sort_key (\<lambda>r. order_key (fst r))
         (filter (\<lambda>r. language_id (fst r) \<in> set (map lang_id langs))
           (filter (name_lookup q) (alias_join (exercises w))))))"

text \<open>The body of the loop of lines 229-249.\<close>

definition exercise_json :: "env \<Rightarrow> exercise \<Rightarrow> py_error + json" where
  "exercise_json ev exercise =
     (case main_image exercise of
        Inl err \<Rightarrow> Inl err
      | Inr m \<Rightarrow>
          (let (image_j, thumbnail) =
                 (case m of
                    Some image_obj \<Rightarrow>
                      (JStr (url (image image_obj)),
                       JStr (get_thumbnail_url ev (image image_obj)
                               (aliases_get ev ''micro_cropped'')))
                  | None \<Rightarrow> (JNull, JNull))
           in case Exercise_category exercise of
                Inl err \<Rightarrow> Inl err
              | Inr c \<Rightarrow>
                  Inr (JDict
                    [(''value'', JStr (name exercise)),
                     (''data'', JDict
                        [(''id'', JInt (ex_id exercise)),
                         (''name'', JStr (name exercise)),
                         (''category'', JStr (gettext ev (cat_name c))),
                         (''image'', image_j),
                         (''image_thumbnail'', thumbnail)])])))"

fun search_loop :: "env \<Rightarrow> exercise list \<Rightarrow> json list \<Rightarrow> py_error + json list" where
  "search_loop ev [] results = Inr results"
| "search_loop ev (exercise # rest) results =
     (case exercise_json ev exercise of
        Inl err \<Rightarrow> Inl err
      | Inr j \<Rightarrow> search_loop ev rest (results @ [j]))"

record search_request =
  GET_term :: "string option"
  GET_language :: "string option"

definition search :: "env \<Rightarrow> world \<Rightarrow> search_request \<Rightarrow> py_error + response" where
  "search ev w request =
     (case GET_term request of
        None \<Rightarrow> Inr (Response (JDict []))
      | Some q \<Rightarrow>
          if q = [] then Inr (Response (JDict []))
          else
            (let langs = load_item_languages ev (GET_language request);
                 exs = search_exercises w q langs
             in case search_loop ev exs [] of
                  Inl err \<Rightarrow> Inl err
                | Inr results \<Rightarrow> Inr (Response (JDict [(''suggestions'', JList results)]))))"

section \<open>\<^verbatim>\<open>ExerciseImageViewSet.thumbnails\<close>\<close>

text \<open>
  \<^verbatim>\<open>ExerciseImage.objects.get(pk=pk)\<close> with the \<^verbatim>\<open>pk\<close> of the URL, a string: the key is
  converted with \<^verbatim>\<open>int\<close> (a \<^verbatim>\<open>ValueError\<close> when that fails), a key outside the signed 64-bit
  range of the database driver is an \<^verbatim>\<open>OverflowError\<close>, and otherwise the one row with
  the key is returned, or \<^verbatim>\<open>DoesNotExist\<close> is raised.
\<close>

definition objects_get :: "env \<Rightarrow> exercise_image list \<Rightarrow> string \<Rightarrow> py_error + exercise_image" where
  "objects_get ev tbl pk =
     (case python_int ev pk of
        None \<Rightarrow> Inl ValueError
      | Some n \<Rightarrow>
          if n < - (2 ^ 63) \<or> 2 ^ 63 \<le> n then Inl OverflowError
          else (case filter (\<lambda>i. img_id i = n) tbl of
                  [] \<Rightarrow> Inl DoesNotExist
                | [i] \<Rightarrow> Inr i
                | _ \<Rightarrow> Inl MultipleObjectsReturned))"

fun thumbnails_loop ::
  "env \<Rightarrow> image_file \<Rightarrow> string list \<Rightarrow> (string \<times> json) list \<Rightarrow> (string \<times> json) list" where
  "thumbnails_loop ev f [] thumbs = thumbs"
| "thumbnails_loop ev f (alias # rest) thumbs =
     thumbnails_loop ev f rest
       (dict_set thumbs alias
          (JDict [(''url'', JStr (get_thumbnail_url ev f (aliases_get ev alias))),
                  (''settings'', json_of_option (aliases_get ev alias))]))"

definition thumbnails :: "env \<Rightarrow> world \<Rightarrow> string \<Rightarrow> py_error + response" where
  "thumbnails ev w pk =
     (case objects_get ev (exercise_images w) pk of
        Inl err \<Rightarrow> if err = DoesNotExist then Inr (Response (JList [])) else Inl err
      | Inr img \<Rightarrow>
          Inr (Response (JDict
            (dict_set (thumbnails_loop ev (image img) (aliases_all ev) [])
               ''original'' (JStr (url (image img)))))))"

section \<open>Creating an exercise\<close>

text \<open>
  \<^verbatim>\<open>MinLengthValidator(limit)\<close> of the framework rejects a value with fewer characters than
  the limit; the list holds the codes of the errors raised. The description field
  declares \<^verbatim>\<open>validators=[MinLengthValidator(40)]\<close> (models/exercise.py, line 55).
\<close>

definition MinLengthValidator :: "nat \<Rightarrow> string \<Rightarrow> string list" where
  "MinLengthValidator limit_value v = (if length v < limit_value then [''min_length''] else [])"

definition description_validators :: "(string \<Rightarrow> string list) list" where
  "description_validators = [MinLengthValidator 40]"

record user =
  username :: string
  can_edit_exercises :: bool
  permissions :: "string list"

text \<open>
  \<^verbatim>\<open>ExerciseTranslationViewSet.perform_create\<close> (api/views.py, lines 121-130): the
  serializer saves the instance, then the action is sent to the activity stream with the
  verb of \<^verbatim>\<open>HistoryModes.CREATED\<close>.
\<close>

definition perform_create :: "user \<Rightarrow> exercise \<Rightarrow> world \<Rightarrow> (py_error + unit) \<times> world" where
  "perform_create u instance w =
     (case save instance w of
        (Inl err, w') \<Rightarrow> (Inl err, w')
      | (Inr _, w') \<Rightarrow>
          (Inr (),
           w'\<lparr>action_stream := action_stream w' @
                 [\<lparr>actor = username u, verb = ''created'', action_object = ex_id instance\<rparr>]\<rparr>))"

text \<open>
  Modelled from the spec: the create handler of \<^verbatim>\<open>CreateUpdateModelViewSet\<close> and the
  validation of \<^verbatim>\<open>ExerciseTranslationSerializer\<close> are not among the sources. By the spec,
  create is gated by an edit-permission check (a structured 403 response on denial), and
  a validation failure on write is a structured 4xx response enumerating the failing
  fields; otherwise the entity is created.
\<close>

definition field_errors :: "exercise \<Rightarrow> (string \<times> json) list" where
  "field_errors d =
     (let errs = concat (map (\<lambda>v. v (description d)) description_validators)
      in if errs = [] then [] else [(''description'', JList (map JStr errs))])"

definition create :: "world \<Rightarrow> user \<Rightarrow> exercise \<Rightarrow> (py_error + response) \<times> world" where
  "create w u d =
     (if \<not> can_edit_exercises u then
        (Inr \<lparr>status_code = 403, data = JDict [(''detail'', JStr ''permission_denied'')]\<rparr>, w)
      else if field_errors d \<noteq> [] then
        (Inr \<lparr>status_code = 400, data = JDict (field_errors d)\<rparr>, w)
      else
        (case perform_create u d w of
           (Inl err, w') \<Rightarrow> (Inl err, w')
         | (Inr _, w') \<Rightarrow>
             (Inr \<lparr>status_code = 201,
                   data = JDict [(''id'', JInt (ex_id d)), (''name'', JStr (name d)),
                                 (''description'', JStr (description d))]\<rparr>, w')))"

section \<open>The history view \<^verbatim>\<open>overview2\<close>\<close>

text \<open>
  A historical revision of an exercise. \<^verbatim>\<open>prev_record\<close> and \<^verbatim>\<open>diff_against\<close> belong to the
  history library and are parameters: the previous revision of the same exercise if
  there is one, and the field-level changes between two revisions.
\<close>

record historical_exercise =
  history_id :: int
  hist_ex_id :: int
  hist_name :: string
  hist_description :: string

type_synonym model_delta = "(string \<times> string \<times> string) list"

record history_api =
  prev_record :: "historical_exercise \<Rightarrow> historical_exercise option"
  diff_against :: "historical_exercise \<Rightarrow> historical_exercise \<Rightarrow> model_delta"

record history_row =
  row_record :: historical_exercise
  row_delta :: model_delta

datatype http_response = render string "history_row list" | redirect_to_login

text \<open>The loop of lines 55-58 over \<^verbatim>\<open>Exercise.history.all()\<close>.\<close>

fun overview2_loop ::
  "history_api \<Rightarrow> historical_exercise list \<Rightarrow> history_row list \<Rightarrow> history_row list" where
  "overview2_loop h [] out = out"
| "overview2_loop h (entry # rest) out =
     (case prev_record h entry of
        Some p \<Rightarrow>
          overview2_loop h rest (out @ [\<lparr>row_record = entry, row_delta = diff_against h entry p\<rparr>])
      | None \<Rightarrow> overview2_loop h rest out)"

text \<open>
  \<^verbatim>\<open>@permission_required('exercises.change_exercise')\<close> sends a user without the permission
  to the login page.
\<close>

definition overview2 :: "history_api \<Rightarrow> historical_exercise list \<Rightarrow> user \<Rightarrow> http_response" where
  "overview2 h history u =
     (if ''exercises.change_exercise'' \<in> set (permissions u)
      then render ''history/list2.html'' (overview2_loop h history [])
      else redirect_to_login)"

section \<open>Example data\<close>

definition example_language_de :: language where
  "example_language_de = \<lparr>lang_id = 1, short_name = ''de''\<rparr>"

definition example_language_en :: language where
  "example_language_en = \<lparr>lang_id = 2, short_name = ''en''\<rparr>"

definition example_setting :: setting where
  "example_setting = \<lparr>set_obj = \<lparr>exerciseday = \<lparr>training = \<lparr>workout_pk = 7\<rparr>\<rparr>\<rparr>\<rparr>"

definition example_image_pending :: exercise_image where
  "example_image_pending =
     \<lparr>img_id = 1, image = \<lparr>url = ''/media/squat-draft.png''\<rparr>, is_main = True,
      status = STATUS_PENDING\<rparr>"

definition example_image_main :: exercise_image where
  "example_image_main =
     \<lparr>img_id = 2, image = \<lparr>url = ''/media/squat.png''\<rparr>, is_main = True,
      status = STATUS_ACCEPTED\<rparr>"

definition example_base :: exercise_base where
  "example_base =
     \<lparr>base_id = 1, category = \<lparr>cat_id = 3, cat_name = ''Legs''\<rparr>, muscles = [1, 2],
      muscles_secondary = [3], equipment = [4], license_id = 1,
      exerciseimage_set = [example_image_pending, example_image_main],
      setting_set = [example_setting]\<rparr>"

definition example_base_arms :: exercise_base where
  "example_base_arms =
     \<lparr>base_id = 2, category = \<lparr>cat_id = 1, cat_name = ''Arms''\<rparr>, muscles = [5],
      muscles_secondary = [], equipment = [], license_id = 1,
      exerciseimage_set = [], setting_set = []\<rparr>"

definition example_exercise :: exercise where
  "example_exercise =
     \<lparr>ex_id = 1, description = ''Stand upright, bend the knees and rise again.'',
      name = ''Squat'', language_id = 2, exercise_base = Some example_base,
      alias_set = [''Deep squat'', ''Knee bend'']\<rparr>"

definition example_exercise_arms :: exercise where
  "example_exercise_arms =
     \<lparr>ex_id = 2, description = ''Hold the bar, squat slightly and curl the arms.'',
      name = ''Curl'', language_id = 2, exercise_base = Some example_base_arms,
      alias_set = [''Squat curl'']\<rparr>"

definition example_exercise_no_base :: exercise where
  "example_exercise_no_base =
     \<lparr>ex_id = 3, description = ''Step forward and lower the hips until both knees bend.'',
      name = ''Lunge'', language_id = 2, exercise_base = None, alias_set = []\<rparr>"

definition example_world :: world where
  "example_world =
     \<lparr>languages = [example_language_de, example_language_en],
      exercises = [example_exercise, example_exercise_arms],
      exercise_images = [example_image_pending, example_image_main],
      cache_store = (\<lambda>k. Some ''cached''),
      action_stream = []\<rparr>"

definition example_env :: env where
  "example_env =
     \<lparr>python_int = py_int,
      load_item_languages = (\<lambda>code. [example_language_en]),
      thumbnail_aliases = [(''micro_cropped'', JDict [(''size'', JList [JInt 30, JInt 30])])],
      get_thumbnail_url = (\<lambda>f opts. url f @ ''.30x30.png''),
      gettext = (\<lambda>s. s)\<rparr>"

definition example_user :: user where
  "example_user =
     \<lparr>username = ''admin'', can_edit_exercises = True,
      permissions = [''exercises.change_exercise'']\<rparr>"

definition example_world_no_base :: world where
  "example_world_no_base =
     example_world\<lparr>exercises := [example_exercise, example_exercise_no_base]\<rparr>"

definition example_visitor :: user where
  "example_visitor = \<lparr>username = ''guest'', can_edit_exercises = False, permissions = []\<rparr>"

definition example_params :: query_params where
  "example_params =
     \<lparr>qp_category = Some ''3'', qp_muscles = Some ''1,2'', qp_muscles_secondary = None,
      qp_equipment = Some ''4'', qp_license = Some ''1''\<rparr>"

definition example_revision_1 :: historical_exercise where
  "example_revision_1 =
     \<lparr>history_id = 1, hist_ex_id = 1, hist_name = ''Squats'',
      hist_description = ''Stand upright, bend the knees and rise again.''\<rparr>"

definition example_revision_2 :: historical_exercise where
  "example_revision_2 =
     \<lparr>history_id = 2, hist_ex_id = 2, hist_name = ''Curl'',
      hist_description = ''Hold the bar, squat slightly and curl the arms.''\<rparr>"

definition example_revision_3 :: historical_exercise where
  "example_revision_3 =
     \<lparr>history_id = 3, hist_ex_id = 1, hist_name = ''Squat'',
      hist_description = ''Stand upright, bend the knees and rise again.''\<rparr>"

definition example_history :: "historical_exercise list" where
  "example_history = [example_revision_3, example_revision_2, example_revision_1]"

definition example_history_api :: history_api where
  "example_history_api =
     \<lparr>prev_record = (\<lambda>e. if history_id e = 3 then Some example_revision_1 else None),
      diff_against = (\<lambda>new old.
        (if hist_name new = hist_name old then []
         else [(''name'', hist_name old, hist_name new)]) @
        (if hist_description new = hist_description old then []
         else [(''description'', hist_description old, hist_description new)]))\<rparr>"

definition example_request :: search_request where
  "example_request = \<lparr>GET_term = Some ''SQUAT'', GET_language = Some ''en''\<rparr>"

section \<open>Cache invalidation on save and delete\<close>

lemma languages_delete_fragments [simp]:
  "languages (delete_fragments ls w) = languages w"
  by (induction ls arbitrary: w) (simp_all add: delete_template_fragment_cache_def)

lemma cache_delete_fragments_keep_None:
  "cache_store w k = None \<Longrightarrow> cache_store (delete_fragments ls w) k = None"
  by (induction ls arbitrary: w) (simp_all add: delete_template_fragment_cache_def)

lemma cache_delete_fragments:
  assumes "l \<in> set ls"
    and "n \<in> {''muscle-overview'', ''exercise-overview'', ''equipment-overview''}"
  shows "cache_store (delete_fragments ls w) (template_fragment n (lang_id l)) = None"
  using assms
proof (induction ls arbitrary: w)
  case Nil
  then show ?case by simp
next
  case (Cons a ls)
  show ?case
  proof (cases "l = a")
    case True
    have "cache_store
            (delete_template_fragment_cache ''equipment-overview'' (lang_id a)
              (delete_template_fragment_cache ''exercise-overview'' (lang_id a)
                (delete_template_fragment_cache ''muscle-overview'' (lang_id a) w)))
            (template_fragment n (lang_id a)) = None"
      using Cons.prems(2) by (auto simp: delete_template_fragment_cache_def)
    then show ?thesis
      using True by (simp add: cache_delete_fragments_keep_None)
  next
    case False
    then have "l \<in> set ls" using Cons.prems(1) by simp
    then show ?thesis using Cons.IH Cons.prems(2) by simp
  qed
qed

lemma cache_reset_workouts_save_keep_None:
  "cache_store w k = None \<Longrightarrow> cache_store (reset_workouts_save ss w) k = None"
  by (induction ss arbitrary: w) (simp_all add: reset_workout_canonical_form_def)

lemma cache_reset_workouts_delete_keep_None:
  "cache_store w k = None \<Longrightarrow> cache_store (reset_workouts_delete ss w) k = None"
  by (induction ss arbitrary: w) (simp_all add: reset_workout_canonical_form_def)

lemma cache_reset_workouts_delete:
  "s \<in> set ss \<Longrightarrow>
   cache_store (reset_workouts_delete ss w)
     (workout_canonical (workout_pk (training (exerciseday (set_obj s))))) = None"
proof (induction ss arbitrary: w)
  case Nil
  then show ?case by simp
next
  case (Cons a ss)
  show ?case
  proof (cases "s = a")
    case True
    then show ?thesis
      by (simp add: cache_reset_workouts_delete_keep_None reset_workout_canonical_form_def)
  next
    case False
    then show ?thesis using Cons by simp
  qed
qed

lemma cache_super_delete [simp]: "cache_store (super_delete e w) = cache_store w"
  by (simp add: super_delete_def)

lemma languages_super_save [simp]: "languages (super_save e w) = languages w"
  by (simp add: super_save_def)

text \<open>
  C3. After \<^verbatim>\<open>Exercise.save\<close>, whatever the instance and whether or not the call then
  raises, the cache holds no entry for the template fragments muscle-overview,
  exercise-overview and equipment-overview of any language of the system.
\<close>

theorem save_invalidates_fragments:
  "\<forall>l \<in> set (languages w).
     \<forall>n \<in> {''muscle-overview'', ''exercise-overview'', ''equipment-overview''}.
       cache_store (snd (save self w)) (template_fragment n (lang_id l)) = None"
proof (intro ballI)
  fix l n
  assume l: "l \<in> set (languages w)"
    and n: "n \<in> {''muscle-overview'', ''exercise-overview'', ''equipment-overview''}"
  let ?w1 = "super_save self w"
  have "cache_store (delete_fragments (languages ?w1) ?w1)
          (template_fragment n (lang_id l)) = None"
    using l n by (intro cache_delete_fragments) simp_all
  then show "cache_store (snd (save self w)) (template_fragment n (lang_id l)) = None"
    by (simp add: save_def Let_def cache_reset_workouts_save_keep_None split: option.split)
qed

theorem save_invalidates_fragments_witness:
  "example_language_en \<in> set (languages example_world) \<and>
   ''muscle-overview'' \<in> {''muscle-overview'', ''exercise-overview'', ''equipment-overview''} \<and>
   cache_store example_world (template_fragment ''muscle-overview'' (lang_id example_language_en))
     = Some ''cached'' \<and>
   cache_store (snd (save example_exercise example_world))
     (template_fragment ''muscle-overview'' (lang_id example_language_en)) = None"
proof -
  have l: "example_language_en \<in> set (languages example_world)"
    by (simp add: example_world_def)
  have n: "''muscle-overview'' \<in> {''muscle-overview'', ''exercise-overview'', ''equipment-overview''}"
    by simp
  have before: "cache_store example_world
      (template_fragment ''muscle-overview'' (lang_id example_language_en)) = Some ''cached''"
    by (simp add: example_world_def)
  from save_invalidates_fragments [of example_world example_exercise, THEN bspec, OF l,
      THEN bspec, OF n]
  show ?thesis using l n before by blast
qed

text \<open>
  C4. After \<^verbatim>\<open>Exercise.delete\<close> on an exercise with base \<open>b\<close>, the cache holds no
  canonical form for the workout reached from any setting of \<open>b\<close> through
  setting, set, exerciseday, training.
\<close>

theorem delete_resets_workouts:
  "exercise_base self = Some b \<Longrightarrow>
   \<forall>s \<in> set (setting_set b).
     cache_store (snd (delete self w))
       (workout_canonical (workout_pk (training (exerciseday (set_obj s))))) = None"
  by (simp add: delete_def Let_def cache_reset_workouts_delete)

theorem delete_resets_workouts_witness:
  "exercise_base example_exercise = Some example_base \<and>
   example_setting \<in> set (setting_set example_base) \<and>
   cache_store example_world (workout_canonical 7) = Some ''cached'' \<and>
   cache_store (snd (delete example_exercise example_world)) (workout_canonical 7) = None"
proof -
  have b: "exercise_base example_exercise = Some example_base"
    by (simp add: example_exercise_def)
  have s: "example_setting \<in> set (setting_set example_base)"
    by (simp add: example_base_def)
  have before: "cache_store example_world (workout_canonical 7) = Some ''cached''"
    by (simp add: example_world_def)
  from delete_resets_workouts [OF b, of example_world, THEN bspec, OF s]
  have "cache_store (snd (delete example_exercise example_world)) (workout_canonical 7) = None"
    by (simp add: example_setting_def)
  with b s before show ?thesis by blast
qed

text \<open>
  C9. \<^verbatim>\<open>save\<close> and \<^verbatim>\<open>delete\<close> raise (an \<^verbatim>\<open>AttributeError\<close>, on dereferencing the base for the
  workout caches) exactly when the exercise has no base; with a base both complete.
\<close>

theorem save_delete_need_base:
  "(exercise_base self = None \<longrightarrow>
      fst (save self w) = Inl AttributeError \<and> fst (delete self w) = Inl AttributeError) \<and>
   (exercise_base self \<noteq> None \<longrightarrow>
      fst (save self w) = Inr () \<and> fst (delete self w) = Inr ())"
  by (auto simp: save_def delete_def Let_def)

theorem save_delete_need_base_witness:
  "exercise_base example_exercise_no_base = None \<and>
   fst (save example_exercise_no_base example_world) = Inl AttributeError \<and>
   fst (delete example_exercise_no_base example_world) = Inl AttributeError \<and>
   exercise_base example_exercise \<noteq> None \<and>
   fst (save example_exercise example_world) = Inr () \<and>
   fst (delete example_exercise example_world) = Inr ()"
proof -
  have n: "exercise_base example_exercise_no_base = None"
    by (simp add: example_exercise_no_base_def)
  have s: "exercise_base example_exercise \<noteq> None"
    by (simp add: example_exercise_def)
  from save_delete_need_base [of example_exercise_no_base example_world] n
  have 1: "fst (save example_exercise_no_base example_world) = Inl AttributeError \<and>
           fst (delete example_exercise_no_base example_world) = Inl AttributeError"
    by blast
  from save_delete_need_base [of example_exercise example_world] s
  have 2: "fst (save example_exercise example_world) = Inr () \<and>
           fst (delete example_exercise example_world) = Inr ()"
    by blast
  from n s 1 2 show ?thesis by blast
qed

section \<open>Search without a term\<close>

text \<open>
  C1 (as amended). A search request whose term is absent or empty is answered with status
  200 and the empty JSON object: the key \<^verbatim>\<open>suggestions\<close> is set inside \<^verbatim>\<open>if q:\<close> only.
\<close>

theorem search_without_term:
  "GET_term request = None \<or> GET_term request = Some [] \<Longrightarrow>
   search ev w request = Inr \<lparr>status_code = 200, data = JDict []\<rparr>"
  by (auto simp: search_def Response_def)

theorem search_without_term_witness:
  "(GET_term \<lparr>GET_term = Some [], GET_language = Some ''en''\<rparr> = None \<or>
    GET_term \<lparr>GET_term = Some [], GET_language = Some ''en''\<rparr> = Some []) \<and>
   search example_env example_world \<lparr>GET_term = Some [], GET_language = Some ''en''\<rparr> =
     Inr \<lparr>status_code = 200, data = JDict []\<rparr>"
proof -
  have h: "GET_term \<lparr>GET_term = Some [], GET_language = Some ''en''\<rparr> = None \<or>
           GET_term \<lparr>GET_term = Some [], GET_language = Some ''en''\<rparr> = Some []"
    by simp
  from h search_without_term [OF h, of example_env example_world] show ?thesis by blast
qed

text \<open>
  The claim as stated fails: without a term the body is not
  \<^verbatim>\<open>{"suggestions": []}\<close>.
\<close>

theorem search_without_term_counterexample:
  "search example_env example_world \<lparr>GET_term = None, GET_language = None\<rparr> \<noteq>
     Inr \<lparr>status_code = 200, data = JDict [(''suggestions'', JList [])]\<rparr>"
  by (simp add: search_def Response_def)

section \<open>The main image\<close>

lemma first_filter_None: "first (filter P xs) = None \<longleftrightarrow> \<not> (\<exists>x \<in> set xs. P x)"
proof -
  have "first (filter P xs) = None \<longleftrightarrow> filter P xs = []"
    by (simp add: first_def split: list.splits)
  then show ?thesis by (simp add: filter_empty_conv)
qed

lemma first_filter_Some:
  assumes "first (filter P xs) = Some x"
  shows "P x \<and> (\<exists>pre post. xs = pre @ x # post \<and> (\<forall>j \<in> set pre. \<not> P j))"
proof -
  from assms obtain rest where "filter P xs = x # rest"
    by (auto simp: first_def split: list.splits)
  then obtain us vs where "xs = us @ x # vs" "\<forall>u \<in> set us. \<not> P u" "P x"
    by (auto simp: filter_eq_Cons_iff)
  then show ?thesis by blast
qed

lemma main_image_base:
  "exercise_base self = Some b \<Longrightarrow>
   main_image self =
     Inr (first (filter (\<lambda>i. status i = STATUS_ACCEPTED \<and> is_main i) (exerciseimage_set b)))"
  by (simp add: main_image_def images_def accepted_def)

text \<open>
  C10 (as amended). For an exercise that has a base, \<^verbatim>\<open>main_image\<close> does not raise; it is
  \<^verbatim>\<open>None\<close> exactly when no image of the base is both accepted and flagged \<^verbatim>\<open>is_main\<close>, and
  otherwise it is the first image of the base, in query order, that is accepted and
  flagged \<^verbatim>\<open>is_main\<close>.
\<close>

theorem main_image_with_base:
  "exercise_base self = Some b \<Longrightarrow>
   \<exists>r. main_image self = Inr r \<and>
     (r = None \<longleftrightarrow>
        \<not> (\<exists>i \<in> set (exerciseimage_set b). status i = STATUS_ACCEPTED \<and> is_main i)) \<and>
     (\<forall>i. r = Some i \<longrightarrow>
        status i = STATUS_ACCEPTED \<and> is_main i \<and>
        (\<exists>pre post. exerciseimage_set b = pre @ i # post \<and>
           (\<forall>j \<in> set pre. \<not> (status j = STATUS_ACCEPTED \<and> is_main j))))"
proof -
  assume b: "exercise_base self = Some b"
  let ?P = "\<lambda>i. status i = STATUS_ACCEPTED \<and> is_main i"
  let ?r = "first (filter ?P (exerciseimage_set b))"
  have "main_image self = Inr ?r" using b by (rule main_image_base)
  moreover have "?r = None \<longleftrightarrow> \<not> (\<exists>i \<in> set (exerciseimage_set b). ?P i)"
    by (rule first_filter_None)
  moreover have "\<forall>i. ?r = Some i \<longrightarrow>
      status i = STATUS_ACCEPTED \<and> is_main i \<and>
      (\<exists>pre post. exerciseimage_set b = pre @ i # post \<and> (\<forall>j \<in> set pre. \<not> ?P j))"
    using first_filter_Some [of ?P "exerciseimage_set b"] by blast
  ultimately show ?thesis by (intro exI [of _ ?r] conjI)
qed

lemma main_image_example: "main_image example_exercise = Inr (Some example_image_main)"
  by (simp add: main_image_def images_def accepted_def first_def example_exercise_def
      example_base_def example_image_pending_def example_image_main_def)

theorem main_image_with_base_witness:
  "exercise_base example_exercise = Some example_base \<and>
   (\<exists>r. main_image example_exercise = Inr r \<and>
     (r = None \<longleftrightarrow>
        \<not> (\<exists>i \<in> set (exerciseimage_set example_base). status i = STATUS_ACCEPTED \<and> is_main i)) \<and>
     (\<forall>i. r = Some i \<longrightarrow>
        status i = STATUS_ACCEPTED \<and> is_main i \<and>
        (\<exists>pre post. exerciseimage_set example_base = pre @ i # post \<and>
           (\<forall>j \<in> set pre. \<not> (status j = STATUS_ACCEPTED \<and> is_main j)))))"
proof -
  have b: "exercise_base example_exercise = Some example_base"
    by (simp add: example_exercise_def)
  from b main_image_with_base [OF b] show ?thesis by (rule conjI)
qed

text \<open>The claim as stated fails: on an exercise without base the property raises.\<close>

theorem main_image_counterexample:
  "main_image example_exercise_no_base = Inl AttributeError"
  by (simp add: main_image_def images_def example_exercise_no_base_def)

section \<open>The field-level history\<close>

lemma overview2_loop_records:
  "map row_record (overview2_loop h es out) =
     map row_record out @ filter (\<lambda>e. prev_record h e \<noteq> None) es"
  by (induction es arbitrary: out) (auto split: option.splits)

lemma overview2_loop_rows:
  "r \<in> set (overview2_loop h es out) \<Longrightarrow>
   r \<in> set out \<or>
   (\<exists>p. prev_record h (row_record r) = Some p \<and> row_delta r = diff_against h (row_record r) p)"
proof (induction es arbitrary: out)
  case Nil
  then show ?case by simp
next
  case (Cons e es)
  show ?case
  proof (cases "prev_record h e")
    case None
    then show ?thesis using Cons by simp
  next
    case (Some p)
    with Cons.prems
    have "r \<in> set (overview2_loop h es (out @ [\<lparr>row_record = e, row_delta = diff_against h e p\<rparr>]))"
      by simp
    from Cons.IH [OF this] Some show ?thesis by auto
  qed
qed

text \<open>
  C8. For a user with the permission, \<^verbatim>\<open>overview2\<close> renders, in the order of the history,
  exactly the revisions that have a previous revision, each with its diff against that
  previous revision.
\<close>

theorem overview2_renders_diffs:
  "''exercises.change_exercise'' \<in> set (permissions u) \<Longrightarrow>
   \<exists>out. overview2 h history u = render ''history/list2.html'' out \<and>
     map row_record out = filter (\<lambda>e. prev_record h e \<noteq> None) history \<and>
     (\<forall>r \<in> set out. \<exists>p. prev_record h (row_record r) = Some p \<and>
                         row_delta r = diff_against h (row_record r) p)"
proof -
  assume perm: "''exercises.change_exercise'' \<in> set (permissions u)"
  let ?out = "overview2_loop h history []"
  have "overview2 h history u = render ''history/list2.html'' ?out"
    using perm by (simp add: overview2_def)
  moreover have "map row_record ?out = filter (\<lambda>e. prev_record h e \<noteq> None) history"
    by (simp add: overview2_loop_records)
  moreover have "\<forall>r \<in> set ?out. \<exists>p. prev_record h (row_record r) = Some p \<and>
                         row_delta r = diff_against h (row_record r) p"
    using overview2_loop_rows [of _ h history "[]"] by auto
  ultimately show ?thesis by blast
qed

theorem overview2_renders_diffs_witness:
  "''exercises.change_exercise'' \<in> set (permissions example_user) \<and>
   (\<exists>out. overview2 example_history_api example_history example_user =
            render ''history/list2.html'' out \<and>
     map row_record out =
       filter (\<lambda>e. prev_record example_history_api e \<noteq> None) example_history \<and>
     (\<forall>r \<in> set out. \<exists>p. prev_record example_history_api (row_record r) = Some p \<and>
                         row_delta r = diff_against example_history_api (row_record r) p))"
proof -
  have perm: "''exercises.change_exercise'' \<in> set (permissions example_user)"
    by (simp add: example_user_def)
  from perm overview2_renders_diffs [OF perm] show ?thesis by (rule conjI)
qed

text \<open>
  On the example history the one revision with a predecessor is rendered, with the
  change of its name.
\<close>

lemma overview2_example:
  "overview2 example_history_api example_history example_user =
     render ''history/list2.html''
       [\<lparr>row_record = example_revision_3, row_delta = [(''name'', ''Squats'', ''Squat'')]\<rparr>]"
  by code_simp

section \<open>Invalid filter values in \<^verbatim>\<open>get_queryset\<close>\<close>

text \<open>The queryset a block returns depends on the queryset it receives only.\<close>

lemma category_block_fst_cong:
  "fst st = fst st' \<Longrightarrow> fst (category_block f p st) = fst (category_block f p st')"
  by (simp add: category_block_def split: option.split)

lemma muscles_block_fst_cong:
  "fst st = fst st' \<Longrightarrow> fst (muscles_block f p st) = fst (muscles_block f p st')"
  by (simp add: muscles_block_def split: option.split)

lemma muscles_secondary_block_fst_cong:
  "fst st = fst st' \<Longrightarrow>
   fst (muscles_secondary_block f p st) = fst (muscles_secondary_block f p st')"
  by (simp add: muscles_secondary_block_def split: option.split)

lemma equipment_block_fst_cong:
  "fst st = fst st' \<Longrightarrow> fst (equipment_block f p st) = fst (equipment_block f p st')"
  by (simp add: equipment_block_def split: option.split)

lemma license_block_fst_cong:
  "fst st = fst st' \<Longrightarrow> fst (license_block f p st) = fst (license_block f p st')"
  by (simp add: license_block_def split: option.split)

text \<open>A block whose value is rejected hands the queryset on as it is.\<close>

lemma category_block_invalid:
  "f c = None \<Longrightarrow> fst (category_block f (Some c) st) = fst (category_block f None st)"
  by (simp add: category_block_def)

lemma muscles_block_invalid:
  "int_list f m = None \<Longrightarrow> fst (muscles_block f (Some m) st) = fst (muscles_block f None st)"
  by (simp add: muscles_block_def)

lemma muscles_secondary_block_invalid:
  "int_list f m = None \<Longrightarrow>
   fst (muscles_secondary_block f (Some m) st) = fst (muscles_secondary_block f None st)"
  by (simp add: muscles_secondary_block_def)

lemma equipment_block_invalid:
  "int_list f e = None \<Longrightarrow> fst (equipment_block f (Some e) st) = fst (equipment_block f None st)"
  by (simp add: equipment_block_def)

lemma license_block_invalid:
  "f l = None \<Longrightarrow> fst (license_block f (Some l) st) = fst (license_block f None st)"
  by (simp add: license_block_def)

text \<open>The exercises a block lets through are those that pass its filter.\<close>

lemma set_filter_base_eq:
  "set (filter_base_eq col v qs) =
     {e \<in> set qs. case exercise_base e of None \<Rightarrow> False | Some b \<Rightarrow> col b = v}"
  by (simp add: filter_base_eq_def)

lemma set_filter_base_in:
  "set (filter_base_in rel vs qs) =
     {e \<in> set qs. case exercise_base e of
                      None \<Rightarrow> False
                    | Some b \<Rightarrow> list_ex (\<lambda>m. m \<in> set vs) (rel b)}"
  by (induction qs) (auto simp: filter_base_in_def list_ex_iff split: option.splits)

lemma set_category_block:
  "set (fst (category_block f p st)) =
     {e \<in> set (fst st). passes_id_filter (\<lambda>b. cat_id (category b)) f p e}"
  by (simp add: category_block_def passes_id_filter_def set_filter_base_eq
      split: option.split)

lemma set_license_block:
  "set (fst (license_block f p st)) = {e \<in> set (fst st). passes_id_filter license_id f p e}"
  by (simp add: license_block_def passes_id_filter_def set_filter_base_eq
      split: option.split)

lemma set_muscles_block:
  "set (fst (muscles_block f p st)) = {e \<in> set (fst st). passes_ids_filter muscles f p e}"
  by (simp add: muscles_block_def passes_ids_filter_def set_filter_base_in
      split: option.split)

lemma set_muscles_secondary_block:
  "set (fst (muscles_secondary_block f p st)) =
     {e \<in> set (fst st). passes_ids_filter muscles_secondary f p e}"
  by (simp add: muscles_secondary_block_def passes_ids_filter_def set_filter_base_in
      split: option.split)

lemma set_equipment_block:
  "set (fst (equipment_block f p st)) = {e \<in> set (fst st). passes_ids_filter equipment f p e}"
  by (simp add: equipment_block_def passes_ids_filter_def set_filter_base_in
      split: option.split)

lemma set_get_queryset:
  "set (fst (get_queryset ev w qp)) =
     {e \<in> set (exercises w).
        passes_id_filter (\<lambda>b. cat_id (category b)) (python_int ev) (qp_category qp) e \<and>
        passes_ids_filter muscles (python_int ev) (qp_muscles qp) e \<and>
        passes_ids_filter muscles_secondary (python_int ev) (qp_muscles_secondary qp) e \<and>
        passes_ids_filter equipment (python_int ev) (qp_equipment qp) e \<and>
        passes_id_filter license_id (python_int ev) (qp_license qp) e}"
  unfolding get_queryset_def set_license_block set_equipment_block
    set_muscles_secondary_block set_muscles_block set_category_block
  by (auto simp: Exercise_objects_all_def)

lemma passes_id_filter_invalid: "f s = None \<Longrightarrow> passes_id_filter col f (Some s) e"
  by (simp add: passes_id_filter_def)

lemma passes_ids_filter_invalid:
  "int_list f s = None \<Longrightarrow> passes_ids_filter rel f (Some s) e"
  by (simp add: passes_ids_filter_def)

text \<open>
  C5. In \<^verbatim>\<open>ExerciseViewSet.get_queryset\<close>, when \<^verbatim>\<open>int\<close> rejects the value of category,
  muscles, muscles_secondary, equipment or license (for the list-valued ones: one piece
  of the comma-separated value), the function returns a queryset, and it is the queryset
  returned when that parameter is absent: its exercises are exactly the exercises that
  pass the filters of the four other parameters, each applied when its value is valid.
\<close>

theorem get_queryset_drops_invalid_filter:
  "(python_int ev c = None \<longrightarrow>
      fst (get_queryset ev w (qp\<lparr>qp_category := Some c\<rparr>)) =
      fst (get_queryset ev w (qp\<lparr>qp_category := None\<rparr>)) \<and>
      set (fst (get_queryset ev w (qp\<lparr>qp_category := Some c\<rparr>))) =
        {e \<in> set (exercises w).
          passes_ids_filter muscles (python_int ev) (qp_muscles qp) e \<and>
          passes_ids_filter muscles_secondary (python_int ev) (qp_muscles_secondary qp) e \<and>
          passes_ids_filter equipment (python_int ev) (qp_equipment qp) e \<and>
          passes_id_filter license_id (python_int ev) (qp_license qp) e}) \<and>
   (int_list (python_int ev) m = None \<longrightarrow>
      fst (get_queryset ev w (qp\<lparr>qp_muscles := Some m\<rparr>)) =
      fst (get_queryset ev w (qp\<lparr>qp_muscles := None\<rparr>)) \<and>
      set (fst (get_queryset ev w (qp\<lparr>qp_muscles := Some m\<rparr>))) =
        {e \<in> set (exercises w).
          passes_id_filter (\<lambda>b. cat_id (category b)) (python_int ev) (qp_category qp) e \<and>
          passes_ids_filter muscles_secondary (python_int ev) (qp_muscles_secondary qp) e \<and>
          passes_ids_filter equipment (python_int ev) (qp_equipment qp) e \<and>
          passes_id_filter license_id (python_int ev) (qp_license qp) e}) \<and>
   (int_list (python_int ev) m2 = None \<longrightarrow>
      fst (get_queryset ev w (qp\<lparr>qp_muscles_secondary := Some m2\<rparr>)) =
      fst (get_queryset ev w (qp\<lparr>qp_muscles_secondary := None\<rparr>)) \<and>
      set (fst (get_queryset ev w (qp\<lparr>qp_muscles_secondary := Some m2\<rparr>))) =
        {e \<in> set (exercises w).
          passes_id_filter (\<lambda>b. cat_id (category b)) (python_int ev) (qp_category qp) e \<and>
          passes_ids_filter muscles (python_int ev) (qp_muscles qp) e \<and>
          passes_ids_filter equipment (python_int ev) (qp_equipment qp) e \<and>
          passes_id_filter license_id (python_int ev) (qp_license qp) e}) \<and>
   (int_list (python_int ev) eq = None \<longrightarrow>
      fst (get_queryset ev w (qp\<lparr>qp_equipment := Some eq\<rparr>)) =
      fst (get_queryset ev w (qp\<lparr>qp_equipment := None\<rparr>)) \<and>
      set (fst (get_queryset ev w (qp\<lparr>qp_equipment := Some eq\<rparr>))) =
        {e \<in> set (exercises w).
          passes_id_filter (\<lambda>b. cat_id (category b)) (python_int ev) (qp_category qp) e \<and>
          passes_ids_filter muscles (python_int ev) (qp_muscles qp) e \<and>
          passes_ids_filter muscles_secondary (python_int ev) (qp_muscles_secondary qp) e \<and>
          passes_id_filter license_id (python_int ev) (qp_license qp) e}) \<and>
   (python_int ev l = None \<longrightarrow>
      fst (get_queryset ev w (qp\<lparr>qp_license := Some l\<rparr>)) =
      fst (get_queryset ev w (qp\<lparr>qp_license := None\<rparr>)) \<and>
      set (fst (get_queryset ev w (qp\<lparr>qp_license := Some l\<rparr>))) =
        {e \<in> set (exercises w).
          passes_id_filter (\<lambda>b. cat_id (category b)) (python_int ev) (qp_category qp) e \<and>
          passes_ids_filter muscles (python_int ev) (qp_muscles qp) e \<and>
          passes_ids_filter muscles_secondary (python_int ev) (qp_muscles_secondary qp) e \<and>
          passes_ids_filter equipment (python_int ev) (qp_equipment qp) e})"
proof (intro conjI impI)
  assume a: "python_int ev c = None"
  note 1 = category_block_invalid [where f = "python_int ev", OF a]
  note 2 = muscles_block_fst_cong [OF 1]
  note 3 = muscles_secondary_block_fst_cong [OF 2]
  note 4 = equipment_block_fst_cong [OF 3]
  note 5 = license_block_fst_cong [OF 4]
  show "fst (get_queryset ev w (qp\<lparr>qp_category := Some c\<rparr>)) =
      fst (get_queryset ev w (qp\<lparr>qp_category := None\<rparr>))"
    by (simp add: get_queryset_def 5)
next
  assume a: "python_int ev c = None"
  show "set (fst (get_queryset ev w (qp\<lparr>qp_category := Some c\<rparr>))) =
        {e \<in> set (exercises w).
          passes_ids_filter muscles (python_int ev) (qp_muscles qp) e \<and>
          passes_ids_filter muscles_secondary (python_int ev) (qp_muscles_secondary qp) e \<and>
          passes_ids_filter equipment (python_int ev) (qp_equipment qp) e \<and>
          passes_id_filter license_id (python_int ev) (qp_license qp) e}"
    by (simp add: set_get_queryset passes_id_filter_invalid [where f = "python_int ev", OF a])
next
  assume a: "int_list (python_int ev) m = None"
  note 1 = muscles_block_invalid [where f = "python_int ev", OF a]
  note 2 = muscles_secondary_block_fst_cong [OF 1]
  note 3 = equipment_block_fst_cong [OF 2]
  note 4 = license_block_fst_cong [OF 3]
  show "fst (get_queryset ev w (qp\<lparr>qp_muscles := Some m\<rparr>)) =
      fst (get_queryset ev w (qp\<lparr>qp_muscles := None\<rparr>))"
    by (simp add: get_queryset_def 4)
next
  assume a: "int_list (python_int ev) m = None"
  show "set (fst (get_queryset ev w (qp\<lparr>qp_muscles := Some m\<rparr>))) =
        {e \<in> set (exercises w).
          passes_id_filter (\<lambda>b. cat_id (category b)) (python_int ev) (qp_category qp) e \<and>
          passes_ids_filter muscles_secondary (python_int ev) (qp_muscles_secondary qp) e \<and>
          passes_ids_filter equipment (python_int ev) (qp_equipment qp) e \<and>
          passes_id_filter license_id (python_int ev) (qp_license qp) e}"
    by (simp add: set_get_queryset passes_ids_filter_invalid [where f = "python_int ev", OF a])
next
  assume a: "int_list (python_int ev) m2 = None"
  note 1 = muscles_secondary_block_invalid [where f = "python_int ev", OF a]
  note 2 = equipment_block_fst_cong [OF 1]
  note 3 = license_block_fst_cong [OF 2]
  show "fst (get_queryset ev w (qp\<lparr>qp_muscles_secondary := Some m2\<rparr>)) =
      fst (get_queryset ev w (qp\<lparr>qp_muscles_secondary := None\<rparr>))"
    by (simp add: get_queryset_def 3)
next
  assume a: "int_list (python_int ev) m2 = None"
  show "set (fst (get_queryset ev w (qp\<lparr>qp_muscles_secondary := Some m2\<rparr>))) =
        {e \<in> set (exercises w).
          passes_id_filter (\<lambda>b. cat_id (category b)) (python_int ev) (qp_category qp) e \<and>
          passes_ids_filter muscles (python_int ev) (qp_muscles qp) e \<and>
          passes_ids_filter equipment (python_int ev) (qp_equipment qp) e \<and>
          passes_id_filter license_id (python_int ev) (qp_license qp) e}"
    by (simp add: set_get_queryset passes_ids_filter_invalid [where f = "python_int ev", OF a])
next
  assume a: "int_list (python_int ev) eq = None"
  note 1 = equipment_block_invalid [where f = "python_int ev", OF a]
  note 2 = license_block_fst_cong [OF 1]
  show "fst (get_queryset ev w (qp\<lparr>qp_equipment := Some eq\<rparr>)) =
      fst (get_queryset ev w (qp\<lparr>qp_equipment := None\<rparr>))"
    by (simp add: get_queryset_def 2)
next
  assume a: "int_list (python_int ev) eq = None"
  show "set (fst (get_queryset ev w (qp\<lparr>qp_equipment := Some eq\<rparr>))) =
        {e \<in> set (exercises w).
          passes_id_filter (\<lambda>b. cat_id (category b)) (python_int ev) (qp_category qp) e \<and>
          passes_ids_filter muscles (python_int ev) (qp_muscles qp) e \<and>
          passes_ids_filter muscles_secondary (python_int ev) (qp_muscles_secondary qp) e \<and>
          passes_id_filter license_id (python_int ev) (qp_license qp) e}"
    by (simp add: set_get_queryset passes_ids_filter_invalid [where f = "python_int ev", OF a])
next
  assume a: "python_int ev l = None"
  note 1 = license_block_invalid [where f = "python_int ev", OF a]
  show "fst (get_queryset ev w (qp\<lparr>qp_license := Some l\<rparr>)) =
      fst (get_queryset ev w (qp\<lparr>qp_license := None\<rparr>))"
    by (simp add: get_queryset_def 1)
next
  assume a: "python_int ev l = None"
  show "set (fst (get_queryset ev w (qp\<lparr>qp_license := Some l\<rparr>))) =
        {e \<in> set (exercises w).
          passes_id_filter (\<lambda>b. cat_id (category b)) (python_int ev) (qp_category qp) e \<and>
          passes_ids_filter muscles (python_int ev) (qp_muscles qp) e \<and>
          passes_ids_filter muscles_secondary (python_int ev) (qp_muscles_secondary qp) e \<and>
          passes_ids_filter equipment (python_int ev) (qp_equipment qp) e}"
    by (simp add: set_get_queryset passes_id_filter_invalid [where f = "python_int ev", OF a])
qed

theorem get_queryset_drops_invalid_filter_witness:
  "python_int example_env ''abc'' = None \<and>
   int_list (python_int example_env) ''1,x'' = None \<and>
   int_list (python_int example_env) ''x'' = None \<and>
   int_list (python_int example_env) ''4;5'' = None \<and>
   python_int example_env ''one'' = None \<and>
   fst (get_queryset example_env example_world (example_params\<lparr>qp_category := Some ''abc''\<rparr>)) =
     fst (get_queryset example_env example_world (example_params\<lparr>qp_category := None\<rparr>)) \<and>
   set (fst (get_queryset example_env example_world (example_params\<lparr>qp_category := Some ''abc''\<rparr>))) =
     {e \<in> set (exercises example_world).
        passes_ids_filter muscles (python_int example_env) (qp_muscles example_params) e \<and>
        passes_ids_filter muscles_secondary (python_int example_env) (qp_muscles_secondary example_params) e \<and>
        passes_ids_filter equipment (python_int example_env) (qp_equipment example_params) e \<and>
        passes_id_filter license_id (python_int example_env) (qp_license example_params) e} \<and>
   fst (get_queryset example_env example_world (example_params\<lparr>qp_muscles := Some ''1,x''\<rparr>)) =
     fst (get_queryset example_env example_world (example_params\<lparr>qp_muscles := None\<rparr>)) \<and>
   set (fst (get_queryset example_env example_world (example_params\<lparr>qp_muscles := Some ''1,x''\<rparr>))) =
     {e \<in> set (exercises example_world).
        passes_id_filter (\<lambda>b. cat_id (category b)) (python_int example_env) (qp_category example_params) e \<and>
        passes_ids_filter muscles_secondary (python_int example_env) (qp_muscles_secondary example_params) e \<and>
        passes_ids_filter equipment (python_int example_env) (qp_equipment example_params) e \<and>
        passes_id_filter license_id (python_int example_env) (qp_license example_params) e} \<and>
   fst (get_queryset example_env example_world (example_params\<lparr>qp_muscles_secondary := Some ''x''\<rparr>)) =
     fst (get_queryset example_env example_world (example_params\<lparr>qp_muscles_secondary := None\<rparr>)) \<and>
   set (fst (get_queryset example_env example_world (example_params\<lparr>qp_muscles_secondary := Some ''x''\<rparr>))) =
     {e \<in> set (exercises example_world).
        passes_id_filter (\<lambda>b. cat_id (category b)) (python_int example_env) (qp_category example_params) e \<and>
        passes_ids_filter muscles (python_int example_env) (qp_muscles example_params) e \<and>
        passes_ids_filter equipment (python_int example_env) (qp_equipment example_params) e \<and>
        passes_id_filter license_id (python_int example_env) (qp_license example_params) e} \<and>
   fst (get_queryset example_env example_world (example_params\<lparr>qp_equipment := Some ''4;5''\<rparr>)) =
     fst (get_queryset example_env example_world (example_params\<lparr>qp_equipment := None\<rparr>)) \<and>
   set (fst (get_queryset example_env example_world (example_params\<lparr>qp_equipment := Some ''4;5''\<rparr>))) =
     {e \<in> set (exercises example_world).
        passes_id_filter (\<lambda>b. cat_id (category b)) (python_int example_env) (qp_category example_params) e \<and>
        passes_ids_filter muscles (python_int example_env) (qp_muscles example_params) e \<and>
        passes_ids_filter muscles_secondary (python_int example_env) (qp_muscles_secondary example_params) e \<and>
        passes_id_filter license_id (python_int example_env) (qp_license example_params) e} \<and>
   fst (get_queryset example_env example_world (example_params\<lparr>qp_license := Some ''one''\<rparr>)) =
     fst (get_queryset example_env example_world (example_params\<lparr>qp_license := None\<rparr>)) \<and>
   set (fst (get_queryset example_env example_world (example_params\<lparr>qp_license := Some ''one''\<rparr>))) =
     {e \<in> set (exercises example_world).
        passes_id_filter (\<lambda>b. cat_id (category b)) (python_int example_env) (qp_category example_params) e \<and>
        passes_ids_filter muscles (python_int example_env) (qp_muscles example_params) e \<and>
        passes_ids_filter muscles_secondary (python_int example_env) (qp_muscles_secondary example_params) e \<and>
        passes_ids_filter equipment (python_int example_env) (qp_equipment example_params) e}"
proof -
  have c: "python_int example_env ''abc'' = None"
    by (simp add: example_env_def int_list_def py_int_def strip_def is_space_def parse_digits_def is_digit_def)
  have m: "int_list (python_int example_env) ''1,x'' = None"
    by (simp add: example_env_def int_list_def py_int_def strip_def is_space_def parse_digits_def is_digit_def)
  have m2: "int_list (python_int example_env) ''x'' = None"
    by (simp add: example_env_def int_list_def py_int_def strip_def is_space_def parse_digits_def is_digit_def)
  have eq: "int_list (python_int example_env) ''4;5'' = None"
    by (simp add: example_env_def int_list_def py_int_def strip_def is_space_def parse_digits_def is_digit_def)
  have l: "python_int example_env ''one'' = None"
    by (simp add: example_env_def int_list_def py_int_def strip_def is_space_def parse_digits_def is_digit_def)
  from get_queryset_drops_invalid_filter
    [where ev = example_env and w = example_world and qp = example_params and c = "''abc''"
       and m = "''1,x''" and ?m2.0 = "''x''" and eq = "''4;5''" and l = "''one''"]
    c m m2 eq l
  show ?thesis by blast
qed

text \<open>
  On the example data: with an invalid category the muscle, equipment and license filters
  still select the squat (once for each of its two matching muscles) and the rejected
  value is logged; a valid category that the squat does not have removes it; without
  parameters the exercises come ordered by name.
\<close>

lemma get_queryset_example:
  "map ex_id (fst (get_queryset example_env example_world
                    (example_params\<lparr>qp_category := Some ''abc''\<rparr>))) = [1, 1] \<and>
   snd (get_queryset example_env example_world (example_params\<lparr>qp_category := Some ''abc''\<rparr>))
     = [''Got abc as category ID''] \<and>
   map ex_id (fst (get_queryset example_env example_world
                    (example_params\<lparr>qp_category := Some ''1''\<rparr>))) = [] \<and>
   map name (fst (get_queryset example_env example_world
                   \<lparr>qp_category = None, qp_muscles = None, qp_muscles_secondary = None,
                    qp_equipment = None, qp_license = None\<rparr>)) = [''Curl'', ''Squat'']"
  by code_simp

text \<open>Values of \<open>py_int\<close>: blanks and a no-break space are dropped, underscores group.\<close>

lemma py_int_examples:
  "py_int '' 12_3 '' = Some 123 \<and> py_int [CHR 0xA0, CHR ''3''] = Some 3 \<and>
   py_int ''-7'' = Some (- 7) \<and> py_int ''1__2'' = None \<and> py_int ''1.5'' = None \<and>
   py_int [] = None \<and> py_int ''abc'' = None"
  by code_simp

section \<open>Thumbnails of an unknown image\<close>

lemma objects_get_unknown:
  assumes "python_int ev pk = Some n" and "- (2 ^ 63) \<le> n" and "n < 2 ^ 63"
    and "n \<notin> img_id ` set tbl"
  shows "objects_get ev tbl pk = Inl DoesNotExist"
proof -
  from assms(4) have "filter (\<lambda>i. img_id i = n) tbl = []"
    by (auto simp: filter_empty_conv)
  with assms(1-3) show ?thesis by (simp add: objects_get_def)
qed

text \<open>
  C2 (as amended). For an image id that is an integer within the signed 64-bit range and
  that no \<^verbatim>\<open>ExerciseImage\<close> has, \<^verbatim>\<open>thumbnails\<close> answers with status 200 and the empty JSON
  list.
\<close>

theorem thumbnails_unknown_id:
  "python_int ev pk = Some n \<Longrightarrow> - (2 ^ 63) \<le> n \<Longrightarrow> n < 2 ^ 63 \<Longrightarrow>
   n \<notin> img_id ` set (exercise_images w) \<Longrightarrow>
   thumbnails ev w pk = Inr \<lparr>status_code = 200, data = JList []\<rparr>"
  by (simp add: thumbnails_def objects_get_unknown Response_def)

theorem thumbnails_unknown_id_witness:
  "python_int example_env ''99'' = Some 99 \<and> - (2 ^ 63) \<le> (99::int) \<and> (99::int) < 2 ^ 63 \<and>
   99 \<notin> img_id ` set (exercise_images example_world) \<and>
   thumbnails example_env example_world ''99'' = Inr \<lparr>status_code = 200, data = JList []\<rparr>"
proof -
  have p: "python_int example_env ''99'' = Some 99"
    by (simp add: example_env_def py_int_def strip_def is_space_def parse_digits_def
        is_digit_def digit_value_def)
  have lo: "- (2 ^ 63) \<le> (99::int)" by simp
  have hi: "(99::int) < 2 ^ 63" by simp
  have h: "99 \<notin> img_id ` set (exercise_images example_world)"
    by (simp add: example_world_def example_image_pending_def example_image_main_def)
  from p lo hi h thumbnails_unknown_id [OF p lo hi h] show ?thesis by blast
qed

text \<open>The claim as stated fails: the body is a list, not a mapping.\<close>

theorem thumbnails_unknown_id_counterexample:
  "99 \<notin> img_id ` set (exercise_images example_world) \<and>
   thumbnails example_env example_world ''99'' \<noteq> Inr \<lparr>status_code = 200, data = JDict []\<rparr>"
  by (simp add: thumbnails_def objects_get_def Response_def example_world_def
      example_image_pending_def example_image_main_def example_env_def py_int_def strip_def
      is_space_def parse_digits_def is_digit_def digit_value_def)

text \<open>
  Only \<^verbatim>\<open>DoesNotExist\<close> is caught: an id that is not an integer, or one beyond the 64-bit
  range, leaves the view with the exception.
\<close>

lemma thumbnails_non_numeric_id:
  "python_int ev pk = None \<Longrightarrow> thumbnails ev w pk = Inl ValueError"
  by (simp add: thumbnails_def objects_get_def)

lemma thumbnails_out_of_range_id:
  "python_int ev pk = Some n \<Longrightarrow> n < - (2 ^ 63) \<or> 2 ^ 63 \<le> n \<Longrightarrow>
   thumbnails ev w pk = Inl OverflowError"
  by (simp add: thumbnails_def objects_get_def)

lemma thumbnails_error_examples:
  "thumbnails example_env example_world ''abc'' = Inl ValueError \<and>
   thumbnails example_env example_world ''99999999999999999999'' = Inl OverflowError"
  by code_simp

text \<open>For an image that exists the body is the mapping of the aliases and the original.\<close>

lemma thumbnails_example:
  "thumbnails example_env example_world ''2'' =
     Inr \<lparr>status_code = 200,
          data = JDict
            [(''micro_cropped'',
              JDict [(''url'', JStr ''/media/squat.png.30x30.png''),
                     (''settings'', JDict [(''size'', JList [JInt 30, JInt 30])])]),
             (''original'', JStr ''/media/squat.png'')]\<rparr>"
  by code_simp

section \<open>Validation of the description on create\<close>

text \<open>
  C7 (as amended). A create request that passes the edit-permission check and whose
  description has fewer than 40 characters is answered with status 400 and a body of
  field errors with the key \<^verbatim>\<open>description\<close>; nothing is written.
\<close>

theorem create_short_description_rejected:
  "can_edit_exercises u \<Longrightarrow> length (description d) < 40 \<Longrightarrow>
   \<exists>errs. create w u d = (Inr \<lparr>status_code = 400, data = JDict errs\<rparr>, w) \<and>
          ''description'' \<in> fst ` set errs"
  by (simp add: create_def field_errors_def description_validators_def MinLengthValidator_def)

theorem create_short_description_rejected_witness:
  "can_edit_exercises example_user \<and>
   length (description (example_exercise\<lparr>description := ''Bend the knees.''\<rparr>)) < 40 \<and>
   (\<exists>errs. create example_world example_user (example_exercise\<lparr>description := ''Bend the knees.''\<rparr>)
             = (Inr \<lparr>status_code = 400, data = JDict errs\<rparr>, example_world) \<and>
           ''description'' \<in> fst ` set errs)"
proof -
  have p: "can_edit_exercises example_user"
    by (simp add: example_user_def)
  have l: "length (description (example_exercise\<lparr>description := ''Bend the knees.''\<rparr>)) < 40"
    by simp
  from create_short_description_rejected [OF p l, of example_world] p l
  show ?thesis by blast
qed

text \<open>
  The claim as stated fails: an attempt that does not pass the edit-permission check is
  answered with the permission error, which names no field.
\<close>

theorem create_short_description_rejected_counterexample:
  "length (description (example_exercise\<lparr>description := ''Bend the knees.''\<rparr>)) < 40 \<and>
   create example_world example_visitor (example_exercise\<lparr>description := ''Bend the knees.''\<rparr>) =
     (Inr \<lparr>status_code = 403, data = JDict [(''detail'', JStr ''permission_denied'')]\<rparr>,
      example_world)"
  by (simp add: create_def example_visitor_def)

text \<open>Nothing is written either way.\<close>

lemma create_short_description_not_persisted:
  "length (description d) < 40 \<Longrightarrow> snd (create w u d) = w"
  by (simp add: create_def field_errors_def description_validators_def MinLengthValidator_def)

text \<open>A description of 40 characters or more passes, and the exercise is written.\<close>

lemma create_example:
  "fst (create example_world example_user example_exercise_arms) =
     Inr \<lparr>status_code = 201,
          data = JDict [(''id'', JInt 2), (''name'', JStr ''Curl''),
                        (''description'', JStr ''Hold the bar, squat slightly and curl the arms.'')]\<rparr> \<and>
   action_stream (snd (create example_world example_user example_exercise_arms)) =
     [\<lparr>actor = ''admin'', verb = ''created'', action_object = 2\<rparr>]"
  by code_simp

section \<open>The result list of \<^verbatim>\<open>search\<close>\<close>

lemma starts_with_iff: "starts_with q s \<longleftrightarrow> (\<exists>post. s = q @ post)"
  by (induction q s rule: starts_with.induct) auto

lemma contains_str_iff: "contains_str q s \<longleftrightarrow> (\<exists>pre post. s = pre @ q @ post)"
proof (induction s)
  case Nil
  then show ?case by simp
next
  case (Cons c s)
  have "(\<exists>pre post. c # s = pre @ q @ post) \<longleftrightarrow>
        (\<exists>post. c # s = q @ post) \<or> (\<exists>pre post. s = pre @ q @ post)"
  proof
    assume "\<exists>pre post. c # s = pre @ q @ post"
    then obtain pre post where eq: "c # s = pre @ q @ post" by blast
    show "(\<exists>post. c # s = q @ post) \<or> (\<exists>pre post. s = pre @ q @ post)"
    proof (cases pre)
      case Nil
      with eq show ?thesis by auto
    next
      case (Cons a pre')
      with eq have "s = pre' @ q @ post" by simp
      then show ?thesis by blast
    qed
  next
    assume "(\<exists>post. c # s = q @ post) \<or> (\<exists>pre post. s = pre @ q @ post)"
    then show "\<exists>pre post. c # s = pre @ q @ post"
    proof
      assume "\<exists>post. c # s = q @ post"
      then obtain post where "c # s = [] @ q @ post" by auto
      then show ?thesis by blast
    next
      assume "\<exists>pre post. s = pre @ q @ post"
      then obtain pre post where "c # s = (c # pre) @ q @ post" by auto
      then show ?thesis by blast
    qed
  qed
  then show ?case using Cons.IH by (simp add: starts_with_iff)
qed

lemma icontains_iff:
  "icontains q s \<longleftrightarrow> (\<exists>pre post. map lower_char s = pre @ map lower_char q @ post)"
  by (simp add: icontains_def contains_str_iff)

lemma alias_join_rows:
  "(e, a) \<in> set (alias_join exs) \<longleftrightarrow>
     e \<in> set exs \<and> (case a of None \<Rightarrow> alias_set e = [] | Some al \<Rightarrow> al \<in> set (alias_set e))"
  by (cases a) (auto simp: alias_join_def split: if_splits)

lemma name_lookup_rows:
  "(\<exists>a. (e, a) \<in> set (alias_join exs) \<and> name_lookup q (e, a)) \<longleftrightarrow>
     e \<in> set exs \<and> (icontains q (name e) \<or> (\<exists>al \<in> set (alias_set e). icontains q al))"
proof
  assume "\<exists>a. (e, a) \<in> set (alias_join exs) \<and> name_lookup q (e, a)"
  then obtain a where a: "(e, a) \<in> set (alias_join exs)" "name_lookup q (e, a)" by blast
  then show "e \<in> set exs \<and> (icontains q (name e) \<or> (\<exists>al \<in> set (alias_set e). icontains q al))"
    by (cases a) (auto simp: alias_join_rows name_lookup_def)
next
  assume r: "e \<in> set exs \<and> (icontains q (name e) \<or> (\<exists>al \<in> set (alias_set e). icontains q al))"
  show "\<exists>a. (e, a) \<in> set (alias_join exs) \<and> name_lookup q (e, a)"
  proof (cases "\<exists>al \<in> set (alias_set e). icontains q al")
    case True
    then obtain al where "al \<in> set (alias_set e)" "icontains q al" by blast
    with r have "(e, Some al) \<in> set (alias_join exs) \<and> name_lookup q (e, Some al)"
      by (simp add: alias_join_rows name_lookup_def)
    then show ?thesis by blast
  next
    case False
    with r have n: "icontains q (name e)" by blast
    obtain a where "(e, a) \<in> set (alias_join exs)"
    proof (cases "alias_set e")
      case Nil
      with r have "(e, None) \<in> set (alias_join exs)" by (simp add: alias_join_rows)
      then show ?thesis by (rule that)
    next
      case (Cons al als)
      with r have "(e, Some al) \<in> set (alias_join exs)" by (simp add: alias_join_rows)
      then show ?thesis by (rule that)
    qed
    with n show ?thesis by (auto simp: name_lookup_def)
  qed
qed

lemma set_search_exercises:
  "set (search_exercises w q langs) =
     {e \<in> set (exercises w). language_id e \<in> lang_id ` set langs \<and>
        (icontains q (name e) \<or> (\<exists>al \<in> set (alias_set e). icontains q al))}"
proof -
  let ?rows = "{r \<in> set (alias_join (exercises w)).
                 name_lookup q r \<and> language_id (fst r) \<in> lang_id ` set langs}"
  have 1: "set (search_exercises w q langs) = fst ` ?rows"
    by (simp add: search_exercises_def conj_commute)
  have 2: "e \<in> fst ` ?rows \<longleftrightarrow>
      language_id e \<in> lang_id ` set langs \<and>
      (\<exists>a. (e, a) \<in> set (alias_join (exercises w)) \<and> name_lookup q (e, a))" for e
  proof
    assume "e \<in> fst ` ?rows"
    then obtain r where r: "r \<in> ?rows" "e = fst r" by blast
    then have "(e, snd r) \<in> set (alias_join (exercises w))" "name_lookup q (e, snd r)"
      "language_id e \<in> lang_id ` set langs"
      by simp_all
    then show "language_id e \<in> lang_id ` set langs \<and>
      (\<exists>a. (e, a) \<in> set (alias_join (exercises w)) \<and> name_lookup q (e, a))"
      by blast
  next
    assume "language_id e \<in> lang_id ` set langs \<and>
      (\<exists>a. (e, a) \<in> set (alias_join (exercises w)) \<and> name_lookup q (e, a))"
    then obtain a where "(e, a) \<in> ?rows" by auto
    then have "fst (e, a) \<in> fst ` ?rows" by (rule imageI)
    then show "e \<in> fst ` ?rows" by simp
  qed
  show ?thesis
    unfolding 1 by (rule set_eqI) (simp only: 2 name_lookup_rows mem_Collect_eq, blast)
qed

lemma sorted_map_remdups: "sorted (map f xs) \<Longrightarrow> sorted (map f (remdups xs))"
  by (induction xs) auto

lemma sorted_search_exercises: "sorted (map order_key (search_exercises w q langs))"
proof -
  let ?rows = "filter (\<lambda>r. language_id (fst r) \<in> set (map lang_id langs))
                 (filter (name_lookup q) (alias_join (exercises w)))"
  have "sorted (map (\<lambda>r. order_key (fst r)) (sort_key (\<lambda>r. order_key (fst r)) ?rows))"
    by (rule sorted_sort_key)
  then have "sorted (map order_key (map fst (sort_key (\<lambda>r. order_key (fst r)) ?rows)))"
    by (simp add: comp_def)
  then show ?thesis unfolding search_exercises_def by (rule sorted_map_remdups)
qed

lemma order_key_le:
  "order_key a \<le> order_key b \<longleftrightarrow>
     category_name a < category_name b \<or>
     (category_name a = category_name b \<and> name a \<le> name b)"
  by (auto simp: order_key_def)

lemma exercise_json_base:
  "exercise_base e \<noteq> None \<Longrightarrow> \<exists>j. exercise_json ev e = Inr j"
  by (auto simp: exercise_json_def main_image_def images_def Exercise_category_def
      split: option.splits prod.splits)

lemma search_loop_all:
  "\<forall>e \<in> set es. exercise_base e \<noteq> None \<Longrightarrow>
   \<exists>js. search_loop ev es acc = Inr (acc @ js) \<and> map Inr js = map (exercise_json ev) es"
proof (induction es arbitrary: acc)
  case Nil
  then show ?case by simp
next
  case (Cons e es)
  then obtain j where j: "exercise_json ev e = Inr j"
    using exercise_json_base [of e ev] by auto
  from Cons obtain js where
    js: "search_loop ev es (acc @ [j]) = Inr ((acc @ [j]) @ js)"
        "map Inr js = map (exercise_json ev) es"
    by fastforce
  have "search_loop ev (e # es) acc = Inr (acc @ (j # js))" using j js(1) by simp
  moreover have "map Inr (j # js) = map (exercise_json ev) (e # es)" using j js(2) by simp
  ultimately show ?case by blast
qed

text \<open>The queryset on the example data: both exercises match, the one in category Arms first.\<close>

lemma search_exercises_example:
  "search_exercises example_world ''SQUAT'' [example_language_en] =
     [example_exercise_arms, example_exercise]"
  by code_simp

text \<open>
  C6 (as amended). For a search request with a non-empty term \<open>q\<close>, with the languages
  \<open>langs\<close> that \<^verbatim>\<open>load_item_languages\<close> resolves, and such that every exercise of a language
  in \<open>langs\<close> whose name or some alias contains \<open>q\<close> (case ignored) has a base: the
  response is 200 with one suggestion for each exercise of the queryset, in its order;
  the queryset holds exactly those exercises, each once, ordered by category name and
  then by name.
\<close>

theorem search_result_list:
  assumes "GET_term request = Some q" and "q \<noteq> []"
    and "langs = load_item_languages ev (GET_language request)"
    and "\<forall>e \<in> set (exercises w).
           language_id e \<in> lang_id ` set langs \<and>
           ((\<exists>pre post. map lower_char (name e) = pre @ map lower_char q @ post) \<or>
            (\<exists>al \<in> set (alias_set e).
               \<exists>pre post. map lower_char al = pre @ map lower_char q @ post))
           \<longrightarrow> exercise_base e \<noteq> None"
  shows "\<exists>sugs.
           search ev w request =
             Inr \<lparr>status_code = 200, data = JDict [(''suggestions'', JList sugs)]\<rparr> \<and>
           map Inr sugs = map (exercise_json ev) (search_exercises w q langs) \<and>
           set (search_exercises w q langs) =
             {e \<in> set (exercises w). language_id e \<in> lang_id ` set langs \<and>
                ((\<exists>pre post. map lower_char (name e) = pre @ map lower_char q @ post) \<or>
                 (\<exists>al \<in> set (alias_set e).
                    \<exists>pre post. map lower_char al = pre @ map lower_char q @ post))} \<and>
           distinct (search_exercises w q langs) \<and>
           sorted_wrt (\<lambda>a b. category_name a < category_name b \<or>
                              (category_name a = category_name b \<and> name a \<le> name b))
             (search_exercises w q langs)"
proof -
  have s: "set (search_exercises w q langs) =
             {e \<in> set (exercises w). language_id e \<in> lang_id ` set langs \<and>
                ((\<exists>pre post. map lower_char (name e) = pre @ map lower_char q @ post) \<or>
                 (\<exists>al \<in> set (alias_set e).
                    \<exists>pre post. map lower_char al = pre @ map lower_char q @ post))}"
    by (simp only: set_search_exercises icontains_iff)
  have d: "distinct (search_exercises w q langs)"
    by (simp add: search_exercises_def)
  have "sorted_wrt (\<lambda>a b. order_key a \<le> order_key b) (search_exercises w q langs)"
    using sorted_search_exercises [of w q langs] by (simp add: sorted_map)
  then have o: "sorted_wrt (\<lambda>a b. category_name a < category_name b \<or>
                              (category_name a = category_name b \<and> name a \<le> name b))
             (search_exercises w q langs)"
    by (simp only: order_key_le)
  have "\<forall>e \<in> set (search_exercises w q langs). exercise_base e \<noteq> None"
    unfolding s using assms(4) by blast
  then obtain js where
    js: "search_loop ev (search_exercises w q langs) [] = Inr ([] @ js)"
        "map Inr js = map (exercise_json ev) (search_exercises w q langs)"
    using search_loop_all [of "search_exercises w q langs" ev "[]"] by blast
  have "search ev w request =
          Inr \<lparr>status_code = 200, data = JDict [(''suggestions'', JList js)]\<rparr>"
    using assms(1-3) js(1) by (simp add: search_def Let_def Response_def)
  with js(2) s d o show ?thesis by blast
qed

theorem search_result_list_witness:
  "GET_term example_request = Some ''SQUAT'' \<and> ''SQUAT'' \<noteq> [] \<and>
   [example_language_en] = load_item_languages example_env (GET_language example_request) \<and>
   exercises example_world = [example_exercise, example_exercise_arms] \<and>
   exercise_base example_exercise \<noteq> None \<and> exercise_base example_exercise_arms \<noteq> None \<and>
   (\<exists>sugs.
      search example_env example_world example_request =
        Inr \<lparr>status_code = 200, data = JDict [(''suggestions'', JList sugs)]\<rparr> \<and>
      map Inr sugs =
        map (exercise_json example_env)
          (search_exercises example_world ''SQUAT'' [example_language_en]) \<and>
      set (search_exercises example_world ''SQUAT'' [example_language_en]) =
        {e \<in> set (exercises example_world).
           language_id e \<in> lang_id ` set [example_language_en] \<and>
           ((\<exists>pre post. map lower_char (name e) = pre @ map lower_char ''SQUAT'' @ post) \<or>
            (\<exists>al \<in> set (alias_set e).
               \<exists>pre post. map lower_char al = pre @ map lower_char ''SQUAT'' @ post))} \<and>
      distinct (search_exercises example_world ''SQUAT'' [example_language_en]) \<and>
      sorted_wrt (\<lambda>a b. category_name a < category_name b \<or>
                         (category_name a = category_name b \<and> name a \<le> name b))
        (search_exercises example_world ''SQUAT'' [example_language_en]))"
proof -
  have a: "GET_term example_request = Some ''SQUAT''"
    by (simp add: example_request_def)
  have b: "''SQUAT'' \<noteq> []"
    by simp
  have c: "[example_language_en] = load_item_languages example_env (GET_language example_request)"
    by (simp add: example_env_def)
  have d1: "exercises example_world = [example_exercise, example_exercise_arms]"
    by (simp add: example_world_def)
  have d2: "exercise_base example_exercise \<noteq> None"
    by (simp add: example_exercise_def)
  have d3: "exercise_base example_exercise_arms \<noteq> None"
    by (simp add: example_exercise_arms_def)
  have d: "\<forall>e \<in> set (exercises example_world).
           language_id e \<in> lang_id ` set [example_language_en] \<and>
           ((\<exists>pre post. map lower_char (name e) = pre @ map lower_char ''SQUAT'' @ post) \<or>
            (\<exists>al \<in> set (alias_set e).
               \<exists>pre post. map lower_char al = pre @ map lower_char ''SQUAT'' @ post))
           \<longrightarrow> exercise_base e \<noteq> None"
    using d2 d3 unfolding d1 by simp
  note t = search_result_list [OF a b c d]
  show ?thesis
    by (rule conjI [OF a conjI [OF b conjI [OF c conjI [OF d1 conjI [OF d2 conjI [OF d3 t]]]]]])
qed

text \<open>
  The claim as stated fails: when an exercise without base matches, the loop over the
  queryset raises and the request returns no result list.
\<close>

theorem search_result_list_counterexample:
  "GET_term \<lparr>GET_term = Some ''lunge'', GET_language = Some ''en''\<rparr> = Some ''lunge'' \<and>
   search_exercises example_world_no_base ''lunge'' [example_language_en] =
     [example_exercise_no_base] \<and>
   search example_env example_world_no_base \<lparr>GET_term = Some ''lunge'', GET_language = Some ''en''\<rparr>
     = Inl AttributeError"
  by code_simp

text \<open>The response on the example data.\<close>

lemma search_example:
  "search example_env example_world example_request =
     Inr \<lparr>status_code = 200,
          data = JDict [(''suggestions'', JList
            [JDict [(''value'', JStr ''Curl''),
                    (''data'', JDict [(''id'', JInt 2), (''name'', JStr ''Curl''),
                                      (''category'', JStr ''Arms''), (''image'', JNull),
                                      (''image_thumbnail'', JNull)])],
             JDict [(''value'', JStr ''Squat''),
                    (''data'', JDict [(''id'', JInt 1), (''name'', JStr ''Squat''),
                                      (''category'', JStr ''Legs''),
                                      (''image'', JStr ''/media/squat.png''),
                                      (''image_thumbnail'', JStr ''/media/squat.png.30x30.png'')])]])]\<rparr>"
  by code_simp

end
